theory Spec2Isabelle
  imports Complex_Main
begin

section \<open>FocusGuard (app.js): numbers\<close>

text \<open>
  A JavaScript number is an IEEE double. The embedding keeps the finite values as reals
  (rounding is idealised) and keeps the three non-finite results apart, since they are what
  a division by zero produces in JavaScript: no exception is raised, the quotient is
  \<open>Infinity\<close>, \<open>-Infinity\<close> or \<open>NaN\<close>. Every zero divisor of app.js is the
  result of a subtraction of equal values or of \<open>Math.hypot\<close>, hence \<open>+0\<close>
  (coordinates are taken to be other than \<open>-0\<close>).
\<close>

datatype jsnum = Num real | PosInf | NegInf | NaN

fun isFinite :: "jsnum \<Rightarrow> bool" where
  "isFinite (Num r) = True"
| "isFinite PosInf = False"
| "isFinite NegInf = False"
| "isFinite NaN = False"

text \<open>\<open>a / b\<close> on two finite operands.\<close>

definition js_quot :: "real \<Rightarrow> real \<Rightarrow> jsnum" where
  "js_quot a b =
     (if b \<noteq> 0 then Num (a / b)
      else if 0 < a then PosInf
      else if a < 0 then NegInf
      else NaN)"

fun js_add :: "jsnum \<Rightarrow> jsnum \<Rightarrow> jsnum" where
  "js_add NaN b = NaN"
| "js_add a NaN = NaN"
| "js_add (Num a) (Num b) = Num (a + b)"
| "js_add PosInf NegInf = NaN"
| "js_add NegInf PosInf = NaN"
| "js_add PosInf b = PosInf"
| "js_add a PosInf = PosInf"
| "js_add NegInf b = NegInf"
| "js_add a NegInf = NegInf"

text \<open>\<open>a * c\<close> and \<open>a / c\<close> for a finite, non-zero constant \<open>c\<close> (the source only scales
  by \<open>-90\<close>, \<open>90\<close> and \<open>2\<close>).\<close>

fun js_scale :: "jsnum \<Rightarrow> real \<Rightarrow> jsnum" where
  "js_scale (Num a) c = Num (a * c)"
| "js_scale PosInf c = (if 0 < c then PosInf else if c < 0 then NegInf else NaN)"
| "js_scale NegInf c = (if 0 < c then NegInf else if c < 0 then PosInf else NaN)"
| "js_scale NaN c = NaN"

fun js_divc :: "jsnum \<Rightarrow> real \<Rightarrow> jsnum" where
  "js_divc (Num a) c = js_quot a c"
| "js_divc PosInf c = (if 0 \<le> c then PosInf else NegInf)"
| "js_divc NegInf c = (if 0 \<le> c then NegInf else PosInf)"
| "js_divc NaN c = NaN"

text \<open>\<open>a < c\<close>, \<open>a > c\<close> and \<open>a >= c\<close> against a finite constant: every comparison with
  \<open>NaN\<close> is false.\<close>

fun js_lt :: "jsnum \<Rightarrow> real \<Rightarrow> bool" where
  "js_lt (Num a) c = (a < c)"
| "js_lt PosInf c = False"
| "js_lt NegInf c = True"
| "js_lt NaN c = False"

fun js_gt :: "jsnum \<Rightarrow> real \<Rightarrow> bool" where
  "js_gt (Num a) c = (c < a)"
| "js_gt PosInf c = True"
| "js_gt NegInf c = False"
| "js_gt NaN c = False"

fun js_ge :: "jsnum \<Rightarrow> real \<Rightarrow> bool" where
  "js_ge (Num a) c = (c \<le> a)"
| "js_ge PosInf c = True"
| "js_ge NegInf c = False"
| "js_ge NaN c = False"

fun js_abs :: "jsnum \<Rightarrow> jsnum" where
  "js_abs (Num a) = Num \<bar>a\<bar>"
| "js_abs PosInf = PosInf"
| "js_abs NegInf = PosInf"
| "js_abs NaN = NaN"

text \<open>\<open>Math.hypot(a, b)\<close> on finite arguments.\<close>

definition hypot :: "real \<Rightarrow> real \<Rightarrow> real" where
  "hypot a b = sqrt (a * a + b * b)"

section \<open>Landmark frames and the geometric metrics\<close>

text \<open>
  A landmark is an object with the fields \<open>x\<close>, \<open>y\<close>, \<open>z\<close> (here \<open>lm_x\<close>, \<open>lm_y\<close>,
  \<open>lm_z\<close>); \<open>results.multiFaceLandmarks[0]\<close> is an array of them, read at fixed indices.
  Face Mesh with \<open>refineLandmarks\<close> delivers all 478 of them, so the frame is a total
  function of the index.
\<close>

record landmark =
  lm_x :: real
  lm_y :: real
  lm_z :: real

type_synonym landmarks = "nat \<Rightarrow> landmark"

definition calculatePitch :: "landmarks \<Rightarrow> jsnum" where
  "calculatePitch lms =
     (let nose = lms 1; chin = lms 152; top = lms 10;
          midY = (lm_y top + lm_y chin) / 2;
          verticalSpan = lm_y chin - lm_y top;
          noseOffset = lm_y nose - midY
      in js_scale (js_quot noseOffset verticalSpan) (- 90))"

definition calculateYaw :: "landmarks \<Rightarrow> jsnum" where
  "calculateYaw lms =
     (let nose = lms 1; leftEyeOuter = lms 33; rightEyeOuter = lms 263;
          leftDist = \<bar>lm_x nose - lm_x leftEyeOuter\<bar>;
          rightDist = \<bar>lm_x nose - lm_x rightEyeOuter\<bar>;
          faceSpan = \<bar>lm_x leftEyeOuter - lm_x rightEyeOuter\<bar>
      in if faceSpan = 0 then Num 0
         else let diff = leftDist - rightDist
              in js_scale (js_quot diff faceSpan) 90)"

definition calculateGazeRatio :: "landmarks \<Rightarrow> jsnum" where
  "calculateGazeRatio lms =
     (let leftIris = lms 468; rightIris = lms 473;
          leftTop = lm_y (lms 159); leftBottom = lm_y (lms 145);
          rightTop = lm_y (lms 386); rightBottom = lm_y (lms 374);
          leftRatio = js_quot (lm_y leftIris - leftTop) (leftBottom - leftTop);
          rightRatio = js_quot (lm_y rightIris - rightTop) (rightBottom - rightTop)
      in js_divc (js_add leftRatio rightRatio) 2)"

definition eyeEAR :: "landmarks \<Rightarrow> nat \<Rightarrow> nat \<Rightarrow> nat \<Rightarrow> nat \<Rightarrow> nat \<Rightarrow> nat \<Rightarrow> jsnum" where
  "eyeEAR lms p1 p2 p3 p4 p5 p6 =
     (let v1 = hypot (lm_x (lms p2) - lm_x (lms p6)) (lm_y (lms p2) - lm_y (lms p6));
          v2 = hypot (lm_x (lms p3) - lm_x (lms p5)) (lm_y (lms p3) - lm_y (lms p5));
          h = hypot (lm_x (lms p1) - lm_x (lms p4)) (lm_y (lms p1) - lm_y (lms p4))
      in js_quot (v1 + v2) (2 * h))"

definition calculateEAR :: "landmarks \<Rightarrow> jsnum" where
  "calculateEAR lms =
     (let leftEAR = eyeEAR lms 33 160 158 133 153 144;
          rightEAR = eyeEAR lms 362 387 385 263 380 373
      in js_divc (js_add leftEAR rightEAR) 2)"

section \<open>Configuration and the threshold classifier\<close>

record thresholds =
  PITCH_MAX_DOWN :: real
  PITCH_MIN_DOWN :: real
  YAW_DISTRACTED :: real
  GAZE_DOWN :: real
  EAR_CLOSED :: real
  DELAY_MS :: int
  SLEEP_DELAY_MS :: int

definition THRESHOLDS :: thresholds where
  "THRESHOLDS =
     \<lparr>PITCH_MAX_DOWN = - 20, PITCH_MIN_DOWN = - 2, YAW_DISTRACTED = 45,
      GAZE_DOWN = 0.58, EAR_CLOSED = 0.18, DELAY_MS = 4000, SLEEP_DELAY_MS = 3000\<rparr>"

text \<open>The four metrics \<open>onResults\<close> computes from a frame.\<close>

record metrics =
  pitch :: jsnum
  yaw :: jsnum
  gaze :: jsnum
  ear :: jsnum

definition metricsOf :: "landmarks \<Rightarrow> metrics" where
  "metricsOf lms =
     \<lparr>pitch = calculatePitch lms, yaw = calculateYaw lms,
      gaze = calculateGazeRatio lms, ear = calculateEAR lms\<rparr>"

definition isSlumpingDown :: "metrics \<Rightarrow> bool" where
  "isSlumpingDown m = js_lt (pitch m) (PITCH_MAX_DOWN THRESHOLDS)"

definition isBowingToRead :: "metrics \<Rightarrow> bool" where
  "isBowingToRead m =
     (js_lt (pitch m) (PITCH_MIN_DOWN THRESHOLDS) \<and> js_ge (pitch m) (PITCH_MAX_DOWN THRESHOLDS))"

definition isHeadTurned :: "metrics \<Rightarrow> bool" where
  "isHeadTurned m = js_gt (js_abs (yaw m)) (YAW_DISTRACTED THRESHOLDS)"

definition isGazeDown :: "metrics \<Rightarrow> bool" where
  "isGazeDown m = js_gt (gaze m) (GAZE_DOWN THRESHOLDS)"

definition isClosed :: "metrics \<Rightarrow> bool" where
  "isClosed m = js_lt (ear m) (EAR_CLOSED THRESHOLDS)"

definition isReading :: "metrics \<Rightarrow> bool" where
  "isReading m = (isBowingToRead m \<and> \<not> isHeadTurned m \<and> \<not> isClosed m)"

definition distractedSignal :: "metrics \<Rightarrow> bool" where
  "distractedSignal m =
     (isHeadTurned m \<or> isClosed m \<or> isSlumpingDown m \<or>
      (isBowingToRead m \<and> \<not> isReading m \<and> \<not> isGazeDown m))"

section \<open>Module state, alarm and statistics\<close>

datatype focus = FOCUSED | READING | WARNING | DISTRACTED

datatype audio = AudioA | AudioB

text \<open>What a callback does to its collaborators: the audio elements and the camera.
  Writes to the DOM (badge, overlay, counters' text) are not modelled.\<close>

datatype effect = Play audio | Pause audio | Rewind audio | CameraStart | CameraStop

record app_state =
  isGuarding :: bool
  focusState :: focus
  distractionCount :: nat
  focusStartTime :: int
  lastUpdateTime :: int
  totalFocusMs :: int
  warningStartTime :: "int option"
  eyesClosedStartTime :: "int option"
  currentAudio :: "audio option"

text \<open>The module's top-level initialisers; \<open>t\<close> is \<open>Date.now()\<close> when the script loads.\<close>

definition initialState :: "int \<Rightarrow> app_state" where
  "initialState t =
     \<lparr>isGuarding = False, focusState = FOCUSED, distractionCount = 0,
      focusStartTime = t, lastUpdateTime = t, totalFocusMs = 0,
      warningStartTime = None, eyesClosedStartTime = None, currentAudio = None\<rparr>"

text \<open>
  What one callback reads from outside: \<open>Date.now()\<close> (one reading for the whole
  callback), \<open>Math.random()\<close>, and the \<open>paused\<close> attribute of the audio elements.
\<close>

record env =
  clock :: int
  rnd :: real
  paused :: "audio \<Rightarrow> bool"

definition updateStats :: "int \<Rightarrow> app_state \<Rightarrow> app_state" where
  "updateStats now s =
     (if \<not> isGuarding s then s
      else let dt = now - lastUpdateTime s;
               s1 = s\<lparr>lastUpdateTime := now\<rparr>
           in if focusState s1 = FOCUSED \<or> focusState s1 = READING
              then s1\<lparr>totalFocusMs := totalFocusMs s1 + dt\<rparr>
              else s1)"

text \<open>\<open>playAlarm\<close> also installs itself as the clip's \<open>onended\<close> handler; the
  asynchronous end of a clip is not an event of this model.\<close>

definition playAlarm :: "env \<Rightarrow> app_state \<Rightarrow> app_state \<times> effect list" where
  "playAlarm e s =
     (if (case currentAudio s of None \<Rightarrow> True | Some a \<Rightarrow> paused e a)
      then let a = (if 0.5 < rnd e then AudioA else AudioB)
           in (s\<lparr>currentAudio := Some a\<rparr>, [Play a])
      else (s, []))"

definition stopAlarm :: "app_state \<Rightarrow> app_state \<times> effect list" where
  "stopAlarm s =
     (case currentAudio s of
        None \<Rightarrow> (s, [])
      | Some a \<Rightarrow> (s\<lparr>currentAudio := None\<rparr>, [Pause a, Rewind a]))"

text \<open>\<open>now - warningStartTime\<close>: JavaScript converts \<open>null\<close> to 0 in a subtraction.\<close>

definition sinceWarning :: "int \<Rightarrow> app_state \<Rightarrow> int" where
  "sinceWarning now s = (case warningStartTime s of None \<Rightarrow> now | Some w \<Rightarrow> now - w)"

section \<open>The detection callback\<close>

text \<open>The focus logic of \<open>onResults\<close> for a frame with a face, given the two signals of
  the classifier.\<close>

definition focusLogic :: "env \<Rightarrow> bool \<Rightarrow> bool \<Rightarrow> app_state \<Rightarrow> app_state \<times> effect list" where
  "focusLogic e distracted reading s =
     (let now = clock e in
      if focusState s = FOCUSED \<or> focusState s = READING then
        (if distracted then (s\<lparr>focusState := WARNING, warningStartTime := Some now\<rparr>, [])
         else if reading then (s\<lparr>focusState := READING\<rparr>, [])
         else (s\<lparr>focusState := FOCUSED\<rparr>, []))
      else if focusState s = WARNING then
        (if \<not> distracted
         then (s\<lparr>focusState := (if reading then READING else FOCUSED),
                  warningStartTime := None\<rparr>, [])
         else if DELAY_MS THRESHOLDS < sinceWarning now s
         then playAlarm e (s\<lparr>focusState := DISTRACTED,
                               distractionCount := distractionCount s + 1\<rparr>)
         else (s, []))
      else if focusState s = DISTRACTED then
        (if \<not> distracted
         then stopAlarm (s\<lparr>focusState := (if reading then READING else FOCUSED)\<rparr>)
         else (s, []))
      else (s, []))"

text \<open>The branch of \<open>onResults\<close> for a frame without a face.\<close>

definition noFaceLogic :: "env \<Rightarrow> app_state \<Rightarrow> app_state \<times> effect list" where
  "noFaceLogic e s =
     (if isGuarding s then
        (if focusState s = FOCUSED
         then (s\<lparr>focusState := WARNING, warningStartTime := Some (clock e)\<rparr>, [])
         else if focusState s = WARNING \<and> DELAY_MS THRESHOLDS < sinceWarning (clock e) s
         then playAlarm e (s\<lparr>focusState := DISTRACTED,
                               distractionCount := distractionCount s + 1\<rparr>)
         else (s, []))
      else (s, []))"

text \<open>\<open>results.multiFaceLandmarks\<close>: the landmarks of the first face, or none.\<close>

datatype results = Face landmarks | NoFace

text \<open>A frame with a face whose metrics are \<open>m\<close>.\<close>

definition onMetrics :: "env \<Rightarrow> metrics \<Rightarrow> app_state \<Rightarrow> app_state \<times> effect list" where
  "onMetrics e m s = focusLogic e (distractedSignal m) (isReading m) (updateStats (clock e) s)"

fun onResults :: "env \<Rightarrow> results \<Rightarrow> app_state \<Rightarrow> app_state \<times> effect list" where
  "onResults e (Face lms) s = onMetrics e (metricsOf lms) s"
| "onResults e NoFace s = noFaceLogic e (updateStats (clock e) s)"

section \<open>Controls\<close>

definition startClick :: "int \<Rightarrow> app_state \<Rightarrow> app_state \<times> effect list" where
  "startClick now s =
     (s\<lparr>isGuarding := True, focusStartTime := now, lastUpdateTime := now\<rparr>,
      [Play AudioA, Pause AudioA, CameraStart])"

definition stopClick :: "app_state \<Rightarrow> app_state \<times> effect list" where
  "stopClick s =
     (let (s1, fx) = stopAlarm (s\<lparr>isGuarding := False\<rparr>)
      in (s1\<lparr>focusState := FOCUSED\<rparr>, fx @ [CameraStop]))"

section \<open>Runs\<close>

text \<open>A sequence of detection callbacks, each with what it reads from outside.\<close>

fun runFrames :: "(env \<times> results) list \<Rightarrow> app_state \<Rightarrow> app_state" where
  "runFrames [] s = s"
| "runFrames ((e, r) # fs) s = runFrames fs (fst (onResults e r s))"

text \<open>A tick: a callback for a frame with a face, given by what it reads from outside and
  the classifier's two signals (distracted, reading).\<close>

type_synonym tick = "env \<times> bool \<times> bool"

definition tickTime :: "tick \<Rightarrow> int" where
  "tickTime k = clock (fst k)"

definition tickDistracted :: "tick \<Rightarrow> bool" where
  "tickDistracted k = fst (snd k)"

definition onTick :: "tick \<Rightarrow> app_state \<Rightarrow> app_state \<times> effect list" where
  "onTick k s =
     focusLogic (fst k) (fst (snd k)) (snd (snd k)) (updateStats (clock (fst k)) s)"

fun runTicks :: "tick list \<Rightarrow> app_state \<Rightarrow> app_state" where
  "runTicks [] s = s"
| "runTicks (k # ks) s = runTicks ks (fst (onTick k s))"

text \<open>The state of a session started at \<open>t0\<close> on a freshly loaded page.\<close>

definition sessionStart :: "int \<Rightarrow> int \<Rightarrow> app_state" where
  "sessionStart tload t0 = fst (startClick t0 (initialState tload))"


text \<open>The invariant of the warning timer.\<close>

definition warningTimed :: "app_state \<Rightarrow> bool" where
  "warningTimed s = (focusState s \<noteq> WARNING \<or> warningStartTime s \<noteq> None)"

text \<open>An alarm clip is current only while the state is DISTRACTED.\<close>

definition alarmOnlyDistracted :: "app_state \<Rightarrow> bool" where
  "alarmOnlyDistracted s = (focusState s = DISTRACTED \<or> currentAudio s = None)"

section \<open>Distracted episodes\<close>

text \<open>
  The specification's count, written from its words: an episode is a maximal unbroken run
  of consecutive distracted ticks, and it is long when it has lasted more than the debounce
  delay, that is, when some tick of it is more than \<open>DELAY_MS\<close> after its first tick.
  No order of the timestamps is assumed: \<open>Date.now()\<close> may step back. Where the ticks
  of an episode are in time order, this is the time from its first tick to its last.
\<close>

function episodes :: "tick list \<Rightarrow> tick list list" where
  "episodes [] = []"
| "episodes (k # ks) =
     (if tickDistracted k
      then (k # takeWhile tickDistracted ks) # episodes (dropWhile tickDistracted ks)
      else episodes ks)"
  by pat_completeness auto
termination
  by (relation "measure length") (auto simp: le_imp_less_Suc length_dropWhile_le)

definition episodeDuration :: "tick list \<Rightarrow> int" where
  "episodeDuration ep = tickTime (last ep) - tickTime (hd ep)"

definition episodeLong :: "tick list \<Rightarrow> bool" where
  "episodeLong ep = (\<exists>k\<in>set ep. DELAY_MS THRESHOLDS < tickTime k - tickTime (hd ep))"

definition longEpisodes :: "tick list \<Rightarrow> nat" where
  "longEpisodes ks = length (filter episodeLong (episodes ks))"

section \<open>Example inputs\<close>

text \<open>A callback at time \<open>t\<close> that finds both audio elements paused.\<close>

definition quietEnv :: "int \<Rightarrow> env" where
  "quietEnv t = \<lparr>clock = t, rnd = 0, paused = (\<lambda>a. True)\<rparr>"

text \<open>A frame whose outer eye corners (33, 263) share their x-coordinate while the nose
  tip (1) is off to one side.\<close>

definition alignedCornersFrame :: landmarks where
  "alignedCornersFrame =
     (\<lambda>i. \<lparr>lm_x = 1/2, lm_y = 1/2, lm_z = 0\<rparr>)
       (1 := \<lparr>lm_x = 2/5, lm_y = 1/2, lm_z = 0\<rparr>)"

text \<open>A frame whose left eye has its two corners (33, 133) at one point, with lids 0.04
  apart; the right eye is 0.1 wide with lids 0.04 apart.\<close>

definition pinchedEyeFrame :: landmarks where
  "pinchedEyeFrame =
     (\<lambda>i. \<lparr>lm_x = 1/2, lm_y = 1/2, lm_z = 0\<rparr>)
       (33 := \<lparr>lm_x = 2/5, lm_y = 1/2, lm_z = 0\<rparr>,
        133 := \<lparr>lm_x = 2/5, lm_y = 1/2, lm_z = 0\<rparr>,
        160 := \<lparr>lm_x = 2/5, lm_y = 12/25, lm_z = 0\<rparr>,
        144 := \<lparr>lm_x = 2/5, lm_y = 13/25, lm_z = 0\<rparr>,
        158 := \<lparr>lm_x = 2/5, lm_y = 12/25, lm_z = 0\<rparr>,
        153 := \<lparr>lm_x = 2/5, lm_y = 13/25, lm_z = 0\<rparr>,
        362 := \<lparr>lm_x = 3/5, lm_y = 1/2, lm_z = 0\<rparr>,
        263 := \<lparr>lm_x = 7/10, lm_y = 1/2, lm_z = 0\<rparr>,
        387 := \<lparr>lm_x = 13/20, lm_y = 12/25, lm_z = 0\<rparr>,
        373 := \<lparr>lm_x = 13/20, lm_y = 13/25, lm_z = 0\<rparr>,
        385 := \<lparr>lm_x = 13/20, lm_y = 12/25, lm_z = 0\<rparr>,
        380 := \<lparr>lm_x = 13/20, lm_y = 13/25, lm_z = 0\<rparr>)"

text \<open>The metrics of a slumped head with every other signal calm.\<close>

definition slumped :: metrics where
  "slumped = \<lparr>pitch = Num (- 25), yaw = Num 0, gaze = Num 0.5, ear = Num 0.3\<rparr>"

text \<open>A session started at 0 that lost the face at 1000 and still had none at 6000.\<close>

definition priorSession :: app_state where
  "priorSession =
     runFrames [(quietEnv 1000, NoFace), (quietEnv 6000, NoFace)] (sessionStart 0 0)"

text \<open>One episode during which the clock steps back from 5000 to 1000; and three
  episodes, lasting 5000, 2000 and 5000 ms, apart by one calm tick each.\<close>

definition steppedBackTicks :: "tick list" where
  "steppedBackTicks =
     [(quietEnv 0, True, False), (quietEnv 5000, True, False), (quietEnv 1000, True, False)]"

definition sampleTicks :: "tick list" where
  "sampleTicks =
     [(quietEnv 0, True, False), (quietEnv 3000, True, False), (quietEnv 4500, True, False),
      (quietEnv 5000, True, False), (quietEnv 6000, False, False), (quietEnv 7000, True, False),
      (quietEnv 9000, True, False), (quietEnv 9500, False, True), (quietEnv 10000, True, False),
      (quietEnv 15000, True, False)]"

section \<open>Properties of the metrics\<close>

lemma hypot_nonneg: "0 \<le> hypot a b"
  by (simp add: hypot_def)

lemma hypot_self_zero: "hypot 0 0 = 0"
  by (simp add: hypot_def)

lemma hypot_zero_left: "hypot 0 b = \<bar>b\<bar>"
  by (simp add: hypot_def)

lemma hypot_zero_right: "hypot a 0 = \<bar>a\<bar>"
  by (simp add: hypot_def)

text \<open>
  C8. In every landmark frame whose two outer eye corners (landmarks 33 and 263) have the
  same x-coordinate, \<open>calculateYaw\<close> returns exactly 0: the guard on the zero face span
  returns before the division.
\<close>

theorem calculateYaw_degenerate:
  "lm_x (lms 33) = lm_x (lms 263) \<Longrightarrow> calculateYaw lms = Num 0"
  by (simp add: calculateYaw_def)

theorem calculateYaw_degenerate_witness:
  "lm_x (alignedCornersFrame 33) = lm_x (alignedCornersFrame 263) \<and>
   calculateYaw alignedCornersFrame = Num 0"
  using calculateYaw_degenerate [of alignedCornersFrame]
  by (simp add: alignedCornersFrame_def)

text \<open>
  C9. \<open>calculateGazeRatio\<close> divides by each eye's lid span unguarded. Its result is a
  finite number exactly when both spans (landmarks 145 against 159, 374 against 386) are
  non-zero; as soon as one eye's top and bottom lid share their y-coordinate the division
  by zero is taken and the function returns \<open>Infinity\<close>, \<open>-Infinity\<close> or \<open>NaN\<close>,
  no neutral value being put in its place.
\<close>

theorem calculateGazeRatio_finite_iff:
  "isFinite (calculateGazeRatio lms) \<longleftrightarrow>
     lm_y (lms 145) \<noteq> lm_y (lms 159) \<and> lm_y (lms 374) \<noteq> lm_y (lms 386)"
  by (simp add: calculateGazeRatio_def js_quot_def Let_def)

text \<open>The eye aspect ratio of one eye is never \<open>-Infinity\<close>, and it is \<open>Infinity\<close> or
  \<open>NaN\<close> when the eye's two corners coincide.\<close>

lemma eyeEAR_not_NegInf: "eyeEAR lms p1 p2 p3 p4 p5 p6 \<noteq> NegInf"
  using hypot_nonneg [of "lm_x (lms p2) - lm_x (lms p6)" "lm_y (lms p2) - lm_y (lms p6)"]
        hypot_nonneg [of "lm_x (lms p3) - lm_x (lms p5)" "lm_y (lms p3) - lm_y (lms p5)"]
  by (simp add: eyeEAR_def js_quot_def Let_def)

lemma eyeEAR_zero_width:
  "lm_x (lms p1) = lm_x (lms p4) \<Longrightarrow> lm_y (lms p1) = lm_y (lms p4) \<Longrightarrow>
   eyeEAR lms p1 p2 p3 p4 p5 p6 = PosInf \<or> eyeEAR lms p1 p2 p3 p4 p5 p6 = NaN"
  using hypot_nonneg [of "lm_x (lms p2) - lm_x (lms p6)" "lm_y (lms p2) - lm_y (lms p6)"]
        hypot_nonneg [of "lm_x (lms p3) - lm_x (lms p5)" "lm_y (lms p3) - lm_y (lms p5)"]
  by (simp add: eyeEAR_def js_quot_def Let_def hypot_self_zero)

lemma calculateEAR_zero_width_left:
  assumes "lm_x (lms 33) = lm_x (lms 133)" and "lm_y (lms 33) = lm_y (lms 133)"
  shows "\<not> isFinite (calculateEAR lms)"
proof -
  have l: "eyeEAR lms 33 160 158 133 153 144 = PosInf \<or> eyeEAR lms 33 160 158 133 153 144 = NaN"
    using assms by (rule eyeEAR_zero_width)
  have r: "eyeEAR lms 362 387 385 263 380 373 \<noteq> NegInf"
    by (rule eyeEAR_not_NegInf)
  show ?thesis
    using l r by (cases "eyeEAR lms 362 387 385 263 380 373") (auto simp: calculateEAR_def)
qed

lemma calculateEAR_zero_width_right:
  assumes "lm_x (lms 362) = lm_x (lms 263)" and "lm_y (lms 362) = lm_y (lms 263)"
  shows "\<not> isFinite (calculateEAR lms)"
proof -
  have r: "eyeEAR lms 362 387 385 263 380 373 = PosInf \<or> eyeEAR lms 362 387 385 263 380 373 = NaN"
    using assms by (rule eyeEAR_zero_width)
  have l: "eyeEAR lms 33 160 158 133 153 144 \<noteq> NegInf"
    by (rule eyeEAR_not_NegInf)
  show ?thesis
    using l r by (cases "eyeEAR lms 33 160 158 133 153 144") (auto simp: calculateEAR_def)
qed

text \<open>
  C5. \<open>calculateEAR\<close> has no guard on the eye width. On \<open>pinchedEyeFrame\<close>, whose left
  eye corners (33, 133) coincide while the right eye is regular (its ratio is 0.4), the
  division by the zero width is taken and the function returns \<open>Infinity\<close>, which the
  classifier then reads as an open eye.
\<close>

theorem calculateEAR_pinched_eye:
  "lm_x (pinchedEyeFrame 33) = lm_x (pinchedEyeFrame 133) \<and>
   lm_y (pinchedEyeFrame 33) = lm_y (pinchedEyeFrame 133) \<and>
   eyeEAR pinchedEyeFrame 362 387 385 263 380 373 = Num (2/5) \<and>
   calculateEAR pinchedEyeFrame = PosInf \<and>
   isClosed (metricsOf pinchedEyeFrame) = False"
  by (simp add: pinchedEyeFrame_def calculateEAR_def eyeEAR_def js_quot_def
      hypot_zero_left hypot_zero_right isClosed_def metricsOf_def)

section \<open>Properties of the classifier\<close>

text \<open>
  C6. For every metric sample whose pitch is below \<open>PITCH_MAX_DOWN\<close>, the slumping test
  is true and the distracted signal is true, whatever the yaw, the gaze ratio and the eye
  aspect ratio are.
\<close>

theorem slumping_is_distracted:
  "js_lt (pitch m) (PITCH_MAX_DOWN THRESHOLDS) \<Longrightarrow> isSlumpingDown m \<and> distractedSignal m"
  by (simp add: isSlumpingDown_def distractedSignal_def)

theorem slumping_is_distracted_witness:
  "js_lt (pitch slumped) (PITCH_MAX_DOWN THRESHOLDS) \<and>
   isSlumpingDown slumped \<and> distractedSignal slumped"
proof -
  have h: "js_lt (pitch slumped) (PITCH_MAX_DOWN THRESHOLDS)"
    by (simp add: slumped_def THRESHOLDS_def)
  from slumping_is_distracted [OF h] h show ?thesis by simp
qed

lemma slumped_signal: "pitch m = Num (- 25) \<Longrightarrow> distractedSignal m"
  by (simp add: distractedSignal_def isSlumpingDown_def THRESHOLDS_def)

section \<open>Properties of the state machine\<close>

lemma updateStats_keeps [simp]:
  "focusState (updateStats now s) = focusState s"
  "warningStartTime (updateStats now s) = warningStartTime s"
  "distractionCount (updateStats now s) = distractionCount s"
  "isGuarding (updateStats now s) = isGuarding s"
  "currentAudio (updateStats now s) = currentAudio s"
  by (simp_all add: updateStats_def Let_def)

lemma playAlarm_keeps [simp]:
  "focusState (fst (playAlarm e s)) = focusState s"
  "warningStartTime (fst (playAlarm e s)) = warningStartTime s"
  "distractionCount (fst (playAlarm e s)) = distractionCount s"
  by (simp_all add: playAlarm_def Let_def)

lemma stopAlarm_keeps [simp]:
  "focusState (fst (stopAlarm s)) = focusState s"
  "warningStartTime (fst (stopAlarm s)) = warningStartTime s"
  "distractionCount (fst (stopAlarm s)) = distractionCount s"
  by (simp_all add: stopAlarm_def split: option.splits)

lemma runTicks_append: "runTicks (ks @ ls) s = runTicks ls (runTicks ks s)"
  by (induction ks arbitrary: s) auto

text \<open>A frame with a face is a tick with the signals of its metrics.\<close>

lemma onResults_Face:
  "onResults e (Face lms) s =
     onTick (e, distractedSignal (metricsOf lms), isReading (metricsOf lms)) s"
  by (simp add: onMetrics_def onTick_def)

text \<open>From the start of a session, a clip is current only in state DISTRACTED: the
  scenario below may take a state that is FOCUSED to have none.\<close>

lemma onResults_alarmOnlyDistracted:
  "alarmOnlyDistracted s \<Longrightarrow> alarmOnlyDistracted (fst (onResults e r s))"
  by (cases r; cases "focusState s")
     (auto simp: alarmOnlyDistracted_def onMetrics_def focusLogic_def noFaceLogic_def
        stopAlarm_def playAlarm_def Let_def split: option.splits)

lemma runFrames_alarmOnlyDistracted:
  "alarmOnlyDistracted (runFrames fs (sessionStart tload t0))"
proof -
  have "alarmOnlyDistracted s \<Longrightarrow> alarmOnlyDistracted (runFrames fs s)" for s
    by (induction fs arbitrary: s) (auto simp: onResults_alarmOnlyDistracted)
  moreover have "alarmOnlyDistracted (sessionStart tload t0)"
    by (simp add: alarmOnlyDistracted_def sessionStart_def startClick_def initialState_def)
  ultimately show ?thesis by blast
qed

text \<open>
  C4. With the thresholds of app.js, from a state that is FOCUSED with counter 0 and no
  alarm sounding: a frame at 0 with pitch -25 moves the state to WARNING with warning start
  0; a frame at 3000 with pitch -25 leaves it WARNING and the counter 0; a frame at 4500
  with pitch -25 moves it to DISTRACTED, sets the counter to 1 and plays an alarm clip.
  The other three metrics of the frames are arbitrary.
\<close>

theorem slumping_scenario:
  assumes "focusState s = FOCUSED" and "distractionCount s = 0" and "currentAudio s = None"
    and "pitch m0 = Num (- 25)" and "pitch m1 = Num (- 25)" and "pitch m2 = Num (- 25)"
    and "clock e0 = 0" and "clock e1 = 3000" and "clock e2 = 4500"
    and "s1 = fst (onMetrics e0 m0 s)"
    and "s2 = fst (onMetrics e1 m1 s1)"
    and "s3 = fst (onMetrics e2 m2 s2)"
  shows "focusState s1 = WARNING \<and> warningStartTime s1 = Some 0 \<and> distractionCount s1 = 0 \<and>
         focusState s2 = WARNING \<and> distractionCount s2 = 0 \<and>
         focusState s3 = DISTRACTED \<and> distractionCount s3 = 1 \<and>
         snd (onMetrics e2 m2 s2) = [Play (if 0.5 < rnd e2 then AudioA else AudioB)]"
proof -
  have d: "distractedSignal m0" "distractedSignal m1" "distractedSignal m2"
    using assms(4-6) by (simp_all add: slumped_signal)
  have 1: "focusState s1 = WARNING \<and> warningStartTime s1 = Some 0 \<and> distractionCount s1 = 0
           \<and> currentAudio s1 = None"
    using assms(1-3,7,10) d(1)
    by (simp add: onMetrics_def focusLogic_def Let_def)
  have 2: "focusState s2 = WARNING \<and> warningStartTime s2 = Some 0 \<and> distractionCount s2 = 0
           \<and> currentAudio s2 = None"
    using 1 assms(8,11) d(2)
    by (simp add: onMetrics_def focusLogic_def sinceWarning_def THRESHOLDS_def Let_def)
  have 3: "focusState s3 = DISTRACTED \<and> distractionCount s3 = 1 \<and>
           snd (onMetrics e2 m2 s2) = [Play (if 0.5 < rnd e2 then AudioA else AudioB)]"
    using 2 assms(9,12) d(3)
    by (simp add: onMetrics_def focusLogic_def sinceWarning_def playAlarm_def
        THRESHOLDS_def Let_def)
  from 1 2 3 show ?thesis by simp
qed

theorem slumping_scenario_witness:
  "focusState (sessionStart 0 0) = FOCUSED \<and> distractionCount (sessionStart 0 0) = 0 \<and>
   currentAudio (sessionStart 0 0) = None \<and> pitch slumped = Num (- 25) \<and>
   focusState (fst (onMetrics (quietEnv 0) slumped (sessionStart 0 0))) = WARNING \<and>
   focusState (fst (onMetrics (quietEnv 3000) slumped
     (fst (onMetrics (quietEnv 0) slumped (sessionStart 0 0))))) = WARNING \<and>
   focusState (fst (onMetrics (quietEnv 4500) slumped
     (fst (onMetrics (quietEnv 3000) slumped
       (fst (onMetrics (quietEnv 0) slumped (sessionStart 0 0))))))) = DISTRACTED \<and>
   distractionCount (fst (onMetrics (quietEnv 4500) slumped
     (fst (onMetrics (quietEnv 3000) slumped
       (fst (onMetrics (quietEnv 0) slumped (sessionStart 0 0))))))) = 1 \<and>
   snd (onMetrics (quietEnv 4500) slumped
     (fst (onMetrics (quietEnv 3000) slumped
       (fst (onMetrics (quietEnv 0) slumped (sessionStart 0 0)))))) = [Play AudioB]"
proof -
  have a: "focusState (sessionStart 0 0) = FOCUSED" "distractionCount (sessionStart 0 0) = 0"
    "currentAudio (sessionStart 0 0) = None"
    by (simp_all add: sessionStart_def startClick_def initialState_def)
  have p: "pitch slumped = Num (- 25)"
    by (simp add: slumped_def)
  have c: "clock (quietEnv 0) = 0" "clock (quietEnv 3000) = 3000" "clock (quietEnv 4500) = 4500"
    "rnd (quietEnv 4500) = 0"
    by (simp_all add: quietEnv_def)
  from slumping_scenario [OF a p p p c(1-3) refl refl refl] a p c(4)
  show ?thesis by simp
qed

text \<open>
  C1. A frame without a face is not processed like a frame whose signals are distracted
  and not reading when the state is READING: during an active session the no-face branch
  leaves READING as it is and records no warning start, while the face branch moves to
  WARNING and records the time.
\<close>

theorem noFace_ignores_READING:
  "isGuarding ((sessionStart 0 0)\<lparr>focusState := READING\<rparr>) \<and>
   focusState (fst (onResults (quietEnv 1000) NoFace ((sessionStart 0 0)\<lparr>focusState := READING\<rparr>)))
     = READING \<and>
   warningStartTime (fst (onResults (quietEnv 1000) NoFace ((sessionStart 0 0)\<lparr>focusState := READING\<rparr>)))
     = None \<and>
   focusState (fst (onTick (quietEnv 1000, True, False) ((sessionStart 0 0)\<lparr>focusState := READING\<rparr>)))
     = WARNING \<and>
   warningStartTime (fst (onTick (quietEnv 1000, True, False) ((sessionStart 0 0)\<lparr>focusState := READING\<rparr>)))
     = Some 1000"
  by (simp add: quietEnv_def sessionStart_def startClick_def initialState_def onTick_def
      noFaceLogic_def focusLogic_def Let_def)

text \<open>In the other three states the two branches do the same, effects included.\<close>

lemma noFace_as_distracted:
  "isGuarding s \<Longrightarrow> focusState s \<noteq> READING \<Longrightarrow>
   onResults e NoFace s = onTick (e, True, False) s"
  by (cases "focusState s")
     (simp_all add: onTick_def noFaceLogic_def focusLogic_def Let_def)

text \<open>
  C2 (as amended). Whatever the session before accumulated, pressing stop and then start
  leaves the focus state FOCUSED and no alarm clip current, and the session guarding; the
  focused time and the distraction counter are those of the session before, unchanged.
\<close>

theorem stop_start_keeps_stats:
  "focusState (fst (startClick now (fst (stopClick s)))) = FOCUSED \<and>
   currentAudio (fst (startClick now (fst (stopClick s)))) = None \<and>
   isGuarding (fst (startClick now (fst (stopClick s)))) \<and>
   totalFocusMs (fst (startClick now (fst (stopClick s)))) = totalFocusMs s \<and>
   distractionCount (fst (startClick now (fst (stopClick s)))) = distractionCount s"
  by (simp add: startClick_def stopClick_def stopAlarm_def split: option.splits)

text \<open>
  C2 as stated fails: after a session that accrued 1000 ms of focus and one distraction,
  stop and start leave both statistics as they were, not zero.
\<close>

theorem stop_start_stats_counterexample:
  "focusState priorSession = DISTRACTED \<and>
   totalFocusMs (fst (startClick 7000 (fst (stopClick priorSession)))) = 1000 \<and>
   distractionCount (fst (startClick 7000 (fst (stopClick priorSession)))) = 1"
  by (simp add: priorSession_def quietEnv_def sessionStart_def startClick_def stopClick_def
      stopAlarm_def initialState_def noFaceLogic_def updateStats_def playAlarm_def
      sinceWarning_def THRESHOLDS_def Let_def)

section \<open>Properties of the statistics\<close>


lemma playAlarm_total [simp]: "totalFocusMs (fst (playAlarm e s)) = totalFocusMs s"
  by (simp add: playAlarm_def Let_def)

lemma stopAlarm_total [simp]: "totalFocusMs (fst (stopAlarm s)) = totalFocusMs s"
  by (simp add: stopAlarm_def split: option.splits)






section \<open>The warning timer\<close>

lemma onResults_warningTimed:
  "warningTimed s \<Longrightarrow> warningTimed (fst (onResults e r s))"
  by (cases r)
     (auto simp: warningTimed_def onMetrics_def focusLogic_def noFaceLogic_def Let_def)

lemma runFrames_warningTimed:
  "warningTimed s \<Longrightarrow> warningTimed (runFrames fs s)"
  by (induction fs arbitrary: s) (auto simp: onResults_warningTimed)

text \<open>
  C10. In every state reached from the start of a session on a fresh page (FOCUSED, no
  warning start) by any sequence of callbacks, with or without a face, the state WARNING
  comes with a recorded warning start, so the subtraction in the WARNING branch never
  reads \<open>null\<close>.
\<close>

theorem warning_has_start_time:
  "focusState (runFrames fs (sessionStart tload t0)) = WARNING \<longrightarrow>
   warningStartTime (runFrames fs (sessionStart tload t0)) \<noteq> None"
proof -
  have "warningTimed (sessionStart tload t0)"
    by (simp add: warningTimed_def sessionStart_def startClick_def initialState_def)
  then have "warningTimed (runFrames fs (sessionStart tload t0))"
    by (rule runFrames_warningTimed)
  then show ?thesis
    by (simp add: warningTimed_def)
qed

theorem warning_has_start_time_witness:
  "focusState (runFrames [(quietEnv 0, NoFace)] (sessionStart 0 0)) = WARNING \<and>
   warningStartTime (runFrames [(quietEnv 0, NoFace)] (sessionStart 0 0)) \<noteq> None"
proof -
  have w: "focusState (runFrames [(quietEnv 0, NoFace)] (sessionStart 0 0)) = WARNING"
    by (simp add: quietEnv_def sessionStart_def startClick_def initialState_def
        noFaceLogic_def Let_def)
  from warning_has_start_time [of "[(quietEnv 0, NoFace)]" 0 0] w show ?thesis
    by blast
qed

section \<open>The distraction counter\<close>

lemma onTick_count:
  "distractionCount (fst (onTick k s)) =
     distractionCount s +
     (if focusState s = WARNING \<and> focusState (fst (onTick k s)) = DISTRACTED then 1 else 0)"
  by (cases "focusState s") (simp_all add: onTick_def focusLogic_def Let_def)

lemma onTick_calm:
  "\<not> tickDistracted k \<Longrightarrow>
   (focusState (fst (onTick k s)) = FOCUSED \<or> focusState (fst (onTick k s)) = READING) \<and>
   distractionCount (fst (onTick k s)) = distractionCount s"
  by (cases "focusState s") (simp_all add: onTick_def tickDistracted_def focusLogic_def Let_def)

lemma onTick_enter:
  "tickDistracted k \<Longrightarrow> focusState s = FOCUSED \<or> focusState s = READING \<Longrightarrow>
   focusState (fst (onTick k s)) = WARNING \<and>
   warningStartTime (fst (onTick k s)) = Some (tickTime k) \<and>
   distractionCount (fst (onTick k s)) = distractionCount s"
  by (auto simp: onTick_def tickDistracted_def tickTime_def focusLogic_def Let_def)

lemma onTick_fire:
  "tickDistracted k \<Longrightarrow> focusState s = WARNING \<Longrightarrow> warningStartTime s = Some w \<Longrightarrow>
   DELAY_MS THRESHOLDS < tickTime k - w \<Longrightarrow>
   focusState (fst (onTick k s)) = DISTRACTED \<and>
   distractionCount (fst (onTick k s)) = distractionCount s + 1"
  by (simp add: onTick_def tickDistracted_def tickTime_def focusLogic_def sinceWarning_def Let_def)

lemma onTick_hold:
  "tickDistracted k \<Longrightarrow> focusState s = WARNING \<Longrightarrow> warningStartTime s = Some w \<Longrightarrow>
   \<not> DELAY_MS THRESHOLDS < tickTime k - w \<Longrightarrow>
   focusState (fst (onTick k s)) = WARNING \<and>
   warningStartTime (fst (onTick k s)) = Some w \<and>
   distractionCount (fst (onTick k s)) = distractionCount s"
  by (simp add: onTick_def tickDistracted_def tickTime_def focusLogic_def sinceWarning_def Let_def)

lemma onTick_stay:
  "tickDistracted k \<Longrightarrow> focusState s = DISTRACTED \<Longrightarrow>
   focusState (fst (onTick k s)) = DISTRACTED \<and>
   distractionCount (fst (onTick k s)) = distractionCount s"
  by (simp add: onTick_def tickDistracted_def focusLogic_def Let_def)

lemma distracted_run:
  "\<forall>k\<in>set ks. tickDistracted k \<Longrightarrow> focusState s = DISTRACTED \<Longrightarrow>
   distractionCount (runTicks ks s) = distractionCount s"
  by (induction ks arbitrary: s) (simp_all add: onTick_stay)

lemma warning_run:
  "\<forall>k\<in>set ks. tickDistracted k \<Longrightarrow> focusState s = WARNING \<Longrightarrow> warningStartTime s = Some w \<Longrightarrow>
   distractionCount (runTicks ks s) =
     distractionCount s + (if \<exists>k\<in>set ks. DELAY_MS THRESHOLDS < tickTime k - w then 1 else 0)"
proof (induction ks arbitrary: s)
  case Nil
  then show ?case by simp
next
  case (Cons k ks)
  have d: "tickDistracted k" and ds: "\<forall>k\<in>set ks. tickDistracted k"
    using Cons.prems(1) by simp_all
  show ?case
  proof (cases "DELAY_MS THRESHOLDS < tickTime k - w")
    case True
    from onTick_fire [OF d Cons.prems(2,3) True]
    have "focusState (fst (onTick k s)) = DISTRACTED"
      and "distractionCount (fst (onTick k s)) = distractionCount s + 1" by simp_all
    with distracted_run [OF ds, of "fst (onTick k s)"] True show ?thesis by simp
  next
    case False
    from onTick_hold [OF d Cons.prems(2,3) False]
    have h: "focusState (fst (onTick k s)) = WARNING"
      "warningStartTime (fst (onTick k s)) = Some w"
      "distractionCount (fst (onTick k s)) = distractionCount s" by simp_all
    from Cons.IH [OF ds h(1,2)] h(3) False show ?thesis by simp
  qed
qed

lemma episodeLong_Cons:
  "episodeLong (k # run) \<longleftrightarrow> (\<exists>j\<in>set run. DELAY_MS THRESHOLDS < tickTime j - tickTime k)"
  by (simp add: episodeLong_def THRESHOLDS_def)

lemma longEpisodes_calm: "\<not> tickDistracted k \<Longrightarrow> longEpisodes (k # ks) = longEpisodes ks"
  by (simp add: longEpisodes_def)

lemma longEpisodes_distracted:
  "tickDistracted k \<Longrightarrow>
   longEpisodes (k # ks) =
     (if episodeLong (k # takeWhile tickDistracted ks) then 1 else 0) +
     longEpisodes (dropWhile tickDistracted ks)"
  by (simp add: longEpisodes_def)

text \<open>The counter after a run that starts calm (in FOCUSED or READING, or with a tick that
  is not distracted), whatever the timestamps are.\<close>

lemma count_is_longEpisodes:
  "focusState s = FOCUSED \<or> focusState s = READING \<or> ks = [] \<or> \<not> tickDistracted (hd ks) \<Longrightarrow>
   distractionCount (runTicks ks s) = distractionCount s + longEpisodes ks"
proof (induction ks arbitrary: s rule: episodes.induct)
  case 1
  show ?case by (simp add: longEpisodes_def)
next
  case (2 k ks)
  show ?case
  proof (cases "tickDistracted k")
    case False
    from onTick_calm [OF False, of s]
    have c: "focusState (fst (onTick k s)) = FOCUSED \<or> focusState (fst (onTick k s)) = READING"
      "distractionCount (fst (onTick k s)) = distractionCount s" by simp_all
    from "2.IH"(2) [OF False, of "fst (onTick k s)"] c
    show ?thesis
      by (auto simp: longEpisodes_calm [OF False])
  next
    case True
    define run where "run = takeWhile tickDistracted ks"
    define rest where "rest = dropWhile tickDistracted ks"
    have ks: "ks = run @ rest"
      by (simp add: run_def rest_def)
    have fr: "focusState s = FOCUSED \<or> focusState s = READING"
      using "2.prems" True by simp
    from onTick_enter [OF True fr]
    have e: "focusState (fst (onTick k s)) = WARNING"
      "warningStartTime (fst (onTick k s)) = Some (tickTime k)"
      "distractionCount (fst (onTick k s)) = distractionCount s" by simp_all
    have alld: "\<forall>j\<in>set run. tickDistracted j"
      by (auto simp: run_def dest: set_takeWhileD)
    have c2: "distractionCount (runTicks run (fst (onTick k s))) =
              distractionCount s + (if episodeLong (k # run) then 1 else 0)"
      using warning_run [OF alld e(1,2)] e(3) by (simp add: episodeLong_Cons)
    have hd: "focusState (runTicks run (fst (onTick k s))) = FOCUSED \<or>
              focusState (runTicks run (fst (onTick k s))) = READING \<or>
              rest = [] \<or> \<not> tickDistracted (hd rest)"
      using hd_dropWhile [of tickDistracted ks] by (auto simp: rest_def)
    have "distractionCount (runTicks rest (runTicks run (fst (onTick k s)))) =
          distractionCount (runTicks run (fst (onTick k s))) + longEpisodes rest"
      using "2.IH"(1) [OF True, of "runTicks run (fst (onTick k s))"] hd
      by (simp add: rest_def)
    moreover have "runTicks (k # ks) s = runTicks rest (runTicks run (fst (onTick k s)))"
      by (simp add: ks runTicks_append)
    ultimately show ?thesis
      using c2 by (simp add: longEpisodes_distracted [OF True] run_def rest_def)
  qed
qed

text \<open>Where the ticks of an episode are in time order, it is long exactly when its last
  tick is more than \<open>DELAY_MS\<close> after its first.\<close>

lemma sorted_le_last: "sorted xs \<Longrightarrow> x \<in> set xs \<Longrightarrow> x \<le> (last xs :: int)"
  by (induction xs) auto

lemma episodeLong_sorted:
  assumes "sorted (map tickTime ep)" and "ep \<noteq> []"
  shows "episodeLong ep \<longleftrightarrow> DELAY_MS THRESHOLDS < episodeDuration ep"
proof -
  have le: "tickTime j \<le> tickTime (last ep)" if "j \<in> set ep" for j
    using sorted_le_last [OF assms(1), of "tickTime j"] that assms(2) by (simp add: last_map)
  have "last ep \<in> set ep"
    using assms(2) by simp
  then show ?thesis
    using le by (fastforce simp: episodeLong_def episodeDuration_def)
qed

text \<open>
  C3. A tick increments the distraction counter exactly when it takes the state from
  WARNING to DISTRACTED, and by one; a distracted tick in state DISTRACTED leaves the
  state and the counter as they are. So, for every sequence of ticks processed from the
  start of a session, the final counter is the number of distracted episodes (unbroken runs
  of distracted ticks) that have lasted longer than the debounce delay, not the number of
  distracted ticks.
\<close>

theorem counter_counts_long_episodes:
  "distractionCount (fst (onTick k s)) =
     distractionCount s +
     (if focusState s = WARNING \<and> focusState (fst (onTick k s)) = DISTRACTED then 1 else 0) \<and>
   (tickDistracted k \<and> focusState s = DISTRACTED \<longrightarrow>
      focusState (fst (onTick k s)) = DISTRACTED \<and>
      distractionCount (fst (onTick k s)) = distractionCount s) \<and>
   distractionCount (runTicks ks (sessionStart tload t0)) = longEpisodes ks"
proof -
  have "focusState (sessionStart tload t0) = FOCUSED" "distractionCount (sessionStart tload t0) = 0"
    by (simp_all add: sessionStart_def startClick_def initialState_def)
  then have "distractionCount (runTicks ks (sessionStart tload t0)) = longEpisodes ks"
    using count_is_longEpisodes [of "sessionStart tload t0" ks] by simp
  then show ?thesis
    using onTick_count [of k s] onTick_stay [of k s] by blast
qed

lemma sampleTicks_episodes:
  "map (map tickTime) (episodes sampleTicks) = [[0, 3000, 4500, 5000], [7000, 9000], [10000, 15000]]"
  by (simp add: sampleTicks_def tickDistracted_def tickTime_def quietEnv_def)

theorem counter_counts_long_episodes_witness:
  "longEpisodes sampleTicks = 2 \<and>
   distractionCount (runTicks sampleTicks (sessionStart 0 0)) = 2 \<and>
   tickDistracted (quietEnv 5000, True, False) \<and>
   focusState (runTicks (take 3 sampleTicks) (sessionStart 0 0)) = DISTRACTED \<and>
   focusState (fst (onTick (quietEnv 5000, True, False)
       (runTicks (take 3 sampleTicks) (sessionStart 0 0)))) = DISTRACTED \<and>
   distractionCount (fst (onTick (quietEnv 5000, True, False)
       (runTicks (take 3 sampleTicks) (sessionStart 0 0)))) =
     distractionCount (runTicks (take 3 sampleTicks) (sessionStart 0 0))"
proof -
  have l: "longEpisodes sampleTicks = 2"
    by (simp add: longEpisodes_def episodeLong_def sampleTicks_def tickDistracted_def
        tickTime_def quietEnv_def THRESHOLDS_def)
  have d: "tickDistracted (quietEnv 5000, True, False)"
    by (simp add: tickDistracted_def)
  have f: "focusState (runTicks (take 3 sampleTicks) (sessionStart 0 0)) = DISTRACTED"
    by (simp add: sampleTicks_def quietEnv_def sessionStart_def startClick_def initialState_def
        onTick_def focusLogic_def sinceWarning_def THRESHOLDS_def Let_def)
  from counter_counts_long_episodes
    [of "(quietEnv 5000, True, False)" "runTicks (take 3 sampleTicks) (sessionStart 0 0)"
        sampleTicks 0 0] l d f
  show ?thesis by simp
qed

text \<open>When the clock steps back during an episode, the counter and the count of long
  episodes still agree: the tick at 5000 is more than the delay after the first.\<close>

lemma steppedBackTicks_count:
  "distractionCount (runTicks steppedBackTicks (sessionStart 0 0)) = 1 \<and>
   longEpisodes steppedBackTicks = 1"
  by (simp add: steppedBackTicks_def longEpisodes_def episodeLong_def tickDistracted_def
      tickTime_def quietEnv_def sessionStart_def startClick_def initialState_def onTick_def
      focusLogic_def sinceWarning_def playAlarm_def THRESHOLDS_def Let_def)

end
